theory Spec2Isabelle
  imports Complex_Main
begin

section \<open>The values that reach the constructor\<close>

text \<open>
  The source is \<^verbatim>\<open>src/debounce.ts\<close> with its helper \<^verbatim>\<open>isObject\<close>.
  Timestamps and durations are JavaScript numbers; the embedding takes the finite ones
  as integers (milliseconds, as \<^verbatim>\<open>Date.now()\<close> returns them), with exact arithmetic,
  and keeps \<^verbatim>\<open>NaN\<close> apart because the coercion \<^verbatim>\<open>Number(x) || 0\<close> is about it.
  The scheduler is embedded on these: infinite and fractional durations are outside it.
  The parameter \<^verbatim>\<open>wait\<close> and the properties of the options object have their declared
  types there; \<^verbatim>\<open>func\<close> and \<^verbatim>\<open>options\<close> themselves may be any value, as the code
  tests them at run time. What the constructor makes of a \<^verbatim>\<open>wait\<close> of any kind
  (a string, \<^verbatim>\<open>null\<close>, a fraction, an infinity) has a section of its own.
\<close>

datatype number = Finite int | NaN

datatype error = TypeError string

text \<open>
  A property of an object is absent (\<^verbatim>\<open>"k" in o\<close> is false) or present with a value
  that may be \<^verbatim>\<open>undefined\<close> (\<open>Has None\<close>).
\<close>

datatype 'v property = Missing | Has "'v option"

fun has_key :: "'v property \<Rightarrow> bool" where
  "has_key Missing = False"
| "has_key (Has v) = True"

fun prop_value :: "'v property \<Rightarrow> 'v option" where
  "prop_value Missing = None"
| "prop_value (Has v) = v"

text \<open>
  The interface \<^verbatim>\<open>DebounceOptions\<close>: three optional properties, typed as declared.
  An object of any other shape (an array, \<^verbatim>\<open>{}\<close>) is the record with all three missing.
\<close>

record DebounceOptions =
  opt_maxWait :: "number property"
  opt_leading :: "bool property"
  opt_trailing :: "bool property"

text \<open>
  A value as \<^verbatim>\<open>typeof\<close> sees it. The wrapped callable takes the \<^verbatim>\<open>this\<close> binding
  (\<open>None\<close> is \<^verbatim>\<open>undefined\<close>) and the argument array.
\<close>

datatype ('t, 'a, 'r) jsvalue =
    JSUndefined
  | JSNull
  | JSBoolean bool
  | JSNumber number
  | JSString string
  | JSFunction "'t option \<Rightarrow> 'a list \<Rightarrow> 'r"
  | JSObject DebounceOptions

fun typeof :: "('t, 'a, 'r) jsvalue \<Rightarrow> string" where
  "typeof JSUndefined = ''undefined''"
| "typeof JSNull = ''object''"
| "typeof (JSBoolean b) = ''boolean''"
| "typeof (JSNumber n) = ''number''"
| "typeof (JSString s) = ''string''"
| "typeof (JSFunction f) = ''function''"
| "typeof (JSObject ob) = ''object''"

text \<open>\<^verbatim>\<open>value != null\<close>: the loose comparison, false for \<^verbatim>\<open>null\<close> and \<^verbatim>\<open>undefined\<close>.\<close>

fun loosely_not_null :: "('t, 'a, 'r) jsvalue \<Rightarrow> bool" where
  "loosely_not_null JSUndefined = False"
| "loosely_not_null JSNull = False"
| "loosely_not_null v = True"

definition isObject :: "('t, 'a, 'r) jsvalue \<Rightarrow> bool" where
  "isObject v = (let type = typeof v in loosely_not_null v \<and> type = ''object'')"

text \<open>
  Reading the three properties off a value: an object has what it has, and on any other
  value that \<^verbatim>\<open>isObject\<close> lets through nothing is read at all.
\<close>

fun properties :: "('t, 'a, 'r) jsvalue \<Rightarrow> DebounceOptions" where
  "properties (JSObject ob) = ob"
| "properties v = \<lparr>opt_maxWait = Missing, opt_leading = Missing, opt_trailing = Missing\<rparr>"

text \<open>
  \<^verbatim>\<open>Number(x)\<close> on a value of the declared type \<^verbatim>\<open>number | undefined\<close>, with an integer
  for the number. The conversion of any value is \<open>ToNumber\<close>, below.
\<close>

fun Number :: "number option \<Rightarrow> number" where
  "Number None = NaN"
| "Number (Some n) = n"

text \<open>\<^verbatim>\<open>x || 0\<close> on a number: \<^verbatim>\<open>NaN\<close> and \<^verbatim>\<open>0\<close> are the falsy ones.\<close>

fun or_zero :: "number \<Rightarrow> int" where
  "or_zero NaN = 0"
| "or_zero (Finite n) = (if n = 0 then 0 else n)"

text \<open>\<^verbatim>\<open>!!x\<close> on a value of type \<^verbatim>\<open>boolean | undefined\<close>.\<close>

fun truthy :: "bool option \<Rightarrow> bool" where
  "truthy None = False"
| "truthy (Some b) = b"

section \<open>The closure: constants, variables, and the host\<close>

text \<open>What \<^verbatim>\<open>debounce\<close> fixes once: the constants the inner functions close over.\<close>

record ('t, 'a, 'r) config =
  func :: "'t option \<Rightarrow> 'a list \<Rightarrow> 'r"
  useRAF :: bool
  waitValue :: int
  leading :: bool
  trailing :: bool
  maxWait :: "int option"

text \<open>
  A timer handle: a number in browsers, a \<^verbatim>\<open>Timeout\<close> object in Node.js.
  \<^verbatim>\<open>requestAnimationFrame\<close> always returns a number.
\<close>

datatype TimeoutId = NumberHandle nat | TimeoutObject nat

fun handle_is_number :: "TimeoutId option \<Rightarrow> bool" where
  "handle_is_number (Some (NumberHandle n)) = True"
| "handle_is_number h = False"

text \<open>The \<^verbatim>\<open>let\<close> variables of the closure; \<open>None\<close> is \<^verbatim>\<open>undefined\<close>.\<close>

record ('t, 'a, 'r) state =
  lastArgs :: "'a list option"
  lastThis :: "'t option"
  result :: "'r option"
  lastCallTime :: "int option"
  timerId :: "TimeoutId option"
  lastInvokeTime :: int

text \<open>
  The host: the timeouts and animation-frame requests still outstanding (every one of
  them carries the callback \<^verbatim>\<open>timerExpired\<close>, so only the handle and the delay are
  kept), the next handle of each kind, whether \<^verbatim>\<open>setTimeout\<close> hands out objects, and
  the trace of the applications of the wrapped callable, oldest first.
\<close>

record ('t, 'a) world =
  timeouts :: "(TimeoutId \<times> int) list"
  frames :: "TimeoutId list"
  nextTimeout :: nat
  nextFrame :: nat
  timeoutObjects :: bool
  applied :: "('t option \<times> 'a list) list"

definition timeoutHandle :: "('t, 'a) world \<Rightarrow> TimeoutId" where
  "timeoutHandle w =
     (if timeoutObjects w then TimeoutObject (nextTimeout w) else NumberHandle (nextTimeout w))"

definition setTimeout :: "int \<Rightarrow> ('t, 'a) world \<Rightarrow> TimeoutId \<times> ('t, 'a) world" where
  "setTimeout delay w =
     (let h = timeoutHandle w
      in (h, w\<lparr>timeouts := timeouts w @ [(h, delay)], nextTimeout := Suc (nextTimeout w)\<rparr>))"

definition clearTimeout :: "TimeoutId \<Rightarrow> ('t, 'a) world \<Rightarrow> ('t, 'a) world" where
  "clearTimeout h w = w\<lparr>timeouts := filter (\<lambda>e. fst e \<noteq> h) (timeouts w)\<rparr>"

definition requestAnimationFrame :: "('t, 'a) world \<Rightarrow> TimeoutId \<times> ('t, 'a) world" where
  "requestAnimationFrame w =
     (let h = NumberHandle (nextFrame w)
      in (h, w\<lparr>frames := frames w @ [h], nextFrame := Suc (nextFrame w)\<rparr>))"

definition cancelAnimationFrame :: "TimeoutId \<Rightarrow> ('t, 'a) world \<Rightarrow> ('t, 'a) world" where
  "cancelAnimationFrame h w = w\<lparr>frames := filter (\<lambda>e. e \<noteq> h) (frames w)\<rparr>"

text \<open>
  \<^verbatim>\<open>func.apply(thisArg, args)\<close>: an \<^verbatim>\<open>undefined\<close> argument array applies the
  callable to no arguments. The application is recorded in the trace. Here the callable
  is a function of its binding and arguments: it neither throws nor calls back into the
  wrapper. A callable that calls back has a section of its own below.
\<close>

definition func_apply ::
  "('t option \<Rightarrow> 'a list \<Rightarrow> 'r) \<Rightarrow> 't option \<Rightarrow> 'a list option \<Rightarrow> ('t, 'a) world
    \<Rightarrow> 'r \<times> ('t, 'a) world" where
  "func_apply f thisArg args w =
     (let xs = (case args of None \<Rightarrow> [] | Some ys \<Rightarrow> ys)
      in (f thisArg xs, w\<lparr>applied := applied w @ [(thisArg, xs)]\<rparr>))"

section \<open>The constructor\<close>

definition initial :: "('t, 'a, 'r) state" where
  "initial = \<lparr>lastArgs = None, lastThis = None, result = None, lastCallTime = None,
              timerId = None, lastInvokeTime = 0\<rparr>"

text \<open>
  \<open>hasRAF\<close> says that \<^verbatim>\<open>window.requestAnimationFrame\<close> is a function. The result is
  the closure: its constants and its variables as first declared.
\<close>

definition debounce ::
  "bool \<Rightarrow> ('t, 'a, 'r) jsvalue \<Rightarrow> number option \<Rightarrow> ('t, 'a, 'r) jsvalue
    \<Rightarrow> error + (('t, 'a, 'r) config \<times> ('t, 'a, 'r) state)" where
  "debounce hasRAF fn wait options =
     (let raf = (wait = None \<and> hasRAF) in
      if typeof fn \<noteq> ''function'' then Inl (TypeError ''Expected a function'')
      else
        (case fn of
           JSFunction f \<Rightarrow>
             (let wv = or_zero (Number wait);
                  ob = properties options;
                  l = (if isObject options then truthy (prop_value (opt_leading ob)) else False);
                  m = (if isObject options \<and> has_key (opt_maxWait ob)
                       then Some (max (or_zero (Number (prop_value (opt_maxWait ob)))) wv)
                       else None);
                  t = (if isObject options \<and> has_key (opt_trailing ob)
                       then truthy (prop_value (opt_trailing ob)) else True)
              in Inr (\<lparr>func = f, useRAF = raf, waitValue = wv, leading = l, trailing = t,
                       maxWait = m\<rparr>, initial))
         | _ \<Rightarrow> Inl (TypeError ''Expected a function'')))"

section \<open>The inner functions\<close>

fun invokeFunc ::
  "('t, 'a, 'r) config \<Rightarrow> int \<Rightarrow> ('t, 'a, 'r) state \<times> ('t, 'a) world
    \<Rightarrow> 'r option \<times> ('t, 'a, 'r) state \<times> ('t, 'a) world" where
  "invokeFunc c time (s, w) =
     (let args = lastArgs s;
          thisArg = lastThis s;
          s1 = s\<lparr>lastArgs := None, lastThis := None\<rparr>;
          s2 = s1\<lparr>lastInvokeTime := time\<rparr>;
          (v, w') = func_apply (func c) thisArg args w;
          s3 = s2\<lparr>result := Some v\<rparr>
      in (result s3, s3, w'))"

fun startTimer ::
  "('t, 'a, 'r) config \<Rightarrow> int \<Rightarrow> ('t, 'a, 'r) state \<times> ('t, 'a) world
    \<Rightarrow> TimeoutId \<times> ('t, 'a) world" where
  "startTimer c wait (s, w) =
     (if useRAF c \<and> handle_is_number (timerId s) then
        (case timerId s of
           Some h \<Rightarrow> requestAnimationFrame (cancelAnimationFrame h w)
         | None \<Rightarrow> requestAnimationFrame w)
      else setTimeout wait w)"

fun cancelTimer :: "('t, 'a, 'r) config \<Rightarrow> TimeoutId \<Rightarrow> ('t, 'a) world \<Rightarrow> ('t, 'a) world" where
  "cancelTimer c h w =
     (let w1 = (if useRAF c \<and> handle_is_number (Some h) then cancelAnimationFrame h w else w)
      in clearTimeout h w1)"

fun leadingEdge ::
  "('t, 'a, 'r) config \<Rightarrow> int \<Rightarrow> ('t, 'a, 'r) state \<times> ('t, 'a) world
    \<Rightarrow> 'r option \<times> ('t, 'a, 'r) state \<times> ('t, 'a) world" where
  "leadingEdge c time (s, w) =
     (let s1 = s\<lparr>lastInvokeTime := time\<rparr>;
          (h, w1) = startTimer c (waitValue c) (s1, w);
          s2 = s1\<lparr>timerId := Some h\<rparr>
      in if leading c then invokeFunc c time (s2, w1) else (result s2, s2, w1))"

definition remainingWait :: "('t, 'a, 'r) config \<Rightarrow> ('t, 'a, 'r) state \<Rightarrow> int \<Rightarrow> int" where
  "remainingWait c s time =
     (case lastCallTime s of
        None \<Rightarrow> 0
      | Some lct \<Rightarrow>
          (let timeSinceLastCall = time - lct;
               timeSinceLastInvoke = time - lastInvokeTime s;
               timeWaiting = waitValue c - timeSinceLastCall
           in case maxWait c of
                Some mw \<Rightarrow> min timeWaiting (mw - timeSinceLastInvoke)
              | None \<Rightarrow> timeWaiting))"

definition shouldInvoke :: "('t, 'a, 'r) config \<Rightarrow> ('t, 'a, 'r) state \<Rightarrow> int \<Rightarrow> bool" where
  "shouldInvoke c s time =
     (case lastCallTime s of
        None \<Rightarrow> True
      | Some lct \<Rightarrow>
          (let timeSinceLastCall = time - lct;
               timeSinceLastInvoke = time - lastInvokeTime s
           in timeSinceLastCall \<ge> waitValue c \<or> timeSinceLastCall < 0
              \<or> (case maxWait c of None \<Rightarrow> False | Some mw \<Rightarrow> timeSinceLastInvoke \<ge> mw)))"

fun trailingEdge ::
  "('t, 'a, 'r) config \<Rightarrow> int \<Rightarrow> ('t, 'a, 'r) state \<times> ('t, 'a) world
    \<Rightarrow> 'r option \<times> ('t, 'a, 'r) state \<times> ('t, 'a) world" where
  "trailingEdge c time (s, w) =
     (let s1 = s\<lparr>timerId := None\<rparr>
      in if trailing c \<and> lastArgs s1 \<noteq> None then invokeFunc c time (s1, w)
         else (let s2 = s1\<lparr>lastArgs := None, lastThis := None\<rparr> in (result s2, s2, w)))"

text \<open>The timer callback; \<open>time\<close> is what \<^verbatim>\<open>Date.now()\<close> reads when it runs.\<close>

fun timerExpired ::
  "('t, 'a, 'r) config \<Rightarrow> int \<Rightarrow> ('t, 'a, 'r) state \<times> ('t, 'a) world
    \<Rightarrow> 'r option \<times> ('t, 'a, 'r) state \<times> ('t, 'a) world" where
  "timerExpired c time (s, w) =
     (if shouldInvoke c s time then trailingEdge c time (s, w)
      else (let (h, w1) = startTimer c (remainingWait c s time) (s, w)
            in (None, s\<lparr>timerId := Some h\<rparr>, w1)))"

fun cancel ::
  "('t, 'a, 'r) config \<Rightarrow> ('t, 'a, 'r) state \<times> ('t, 'a) world
    \<Rightarrow> ('t, 'a, 'r) state \<times> ('t, 'a) world" where
  "cancel c (s, w) =
     (let w1 = (case timerId s of Some h \<Rightarrow> cancelTimer c h w | None \<Rightarrow> w);
          s1 = s\<lparr>lastInvokeTime := 0\<rparr>
      in (s1\<lparr>timerId := None, lastThis := None, lastCallTime := None, lastArgs := None\<rparr>, w1))"

fun flush ::
  "('t, 'a, 'r) config \<Rightarrow> int \<Rightarrow> ('t, 'a, 'r) state \<times> ('t, 'a) world
    \<Rightarrow> 'r option \<times> ('t, 'a, 'r) state \<times> ('t, 'a) world" where
  "flush c time (s, w) =
     (if timerId s = None then (result s, s, w) else trailingEdge c time (s, w))"

definition pending :: "('t, 'a, 'r) state \<Rightarrow> bool" where
  "pending s = (timerId s \<noteq> None)"

text \<open>The wrapper; \<open>time\<close> is what \<^verbatim>\<open>Date.now()\<close> reads on entry.\<close>

fun debounced ::
  "('t, 'a, 'r) config \<Rightarrow> int \<Rightarrow> 't option \<Rightarrow> 'a list
    \<Rightarrow> ('t, 'a, 'r) state \<times> ('t, 'a) world
    \<Rightarrow> 'r option \<times> ('t, 'a, 'r) state \<times> ('t, 'a) world" where
  "debounced c time this args (s, w) =
     (let isInvoking = shouldInvoke c s time;
          s1 = s\<lparr>lastArgs := Some args, lastThis := this, lastCallTime := Some time\<rparr>;
          fallthrough =
            (if timerId s1 = None then
               (let (h, w1) = startTimer c (waitValue c) (s1, w)
                in (result s1, s1\<lparr>timerId := Some h\<rparr>, w1))
             else (result s1, s1, w))
      in if isInvoking then
           (if timerId s1 = None then leadingEdge c time (s1, w)
            else if maxWait c \<noteq> None then
              (let (h, w1) = startTimer c (waitValue c) (s1, w)
               in invokeFunc c time (s1\<lparr>timerId := Some h\<rparr>, w1))
            else fallthrough)
         else fallthrough)"

section \<open>The wait of the closure, for any value passed\<close>

text \<open>
  A number as a value: every finite double is a rational, so \<open>Value\<close> has them all
  (and rationals that are no double as well); no arithmetic is done on this type.
\<close>

datatype float64 = Value rat | PlusInfinity | MinusInfinity | NotANumber

text \<open>
  Any value that may be passed as \<^verbatim>\<open>wait\<close>. The constructor looks at it in two ways
  only, \<^verbatim>\<open>wait === undefined\<close> and \<^verbatim>\<open>Number(wait)\<close>, so a value that is no
  primitive (an object, a function, a bigint) stands as \<open>ArgOther\<close> with what the
  conversion of it yields: a number, or \<open>None\<close> when the conversion throws.
\<close>

datatype argument =
    ArgUndefined
  | ArgNull
  | ArgBoolean bool
  | ArgNumber float64
  | ArgString string
  | ArgSymbol
  | ArgOther "float64 option"

text \<open>
  \<^verbatim>\<open>Number(value)\<close>, by the kind of the value. Reading a string as a numeric literal is
  the host's algorithm, the parameter \<open>parse\<close>; on a symbol the conversion throws.
\<close>

fun ToNumber :: "(string \<Rightarrow> float64) \<Rightarrow> argument \<Rightarrow> float64 option" where
  "ToNumber parse ArgUndefined = Some NotANumber"
| "ToNumber parse ArgNull = Some (Value 0)"
| "ToNumber parse (ArgBoolean b) = Some (Value (if b then 1 else 0))"
| "ToNumber parse (ArgNumber n) = Some n"
| "ToNumber parse (ArgString s) = Some (parse s)"
| "ToNumber parse ArgSymbol = None"
| "ToNumber parse (ArgOther outcome) = outcome"

text \<open>The truth value of a number, as \<^verbatim>\<open>||\<close> takes it: \<^verbatim>\<open>NaN\<close> and zero are false.\<close>

fun ToBoolean :: "float64 \<Rightarrow> bool" where
  "ToBoolean (Value q) = (q \<noteq> 0)"
| "ToBoolean PlusInfinity = True"
| "ToBoolean MinusInfinity = True"
| "ToBoolean NotANumber = False"

text \<open>
  \<^verbatim>\<open>const waitValue = Number(wait) || 0\<close> on any value; \<open>None\<close> when the conversion
  throws, and the constructor with it.
\<close>

definition waitValue_of :: "(string \<Rightarrow> float64) \<Rightarrow> argument \<Rightarrow> float64 option" where
  "waitValue_of parse wait =
     (case ToNumber parse wait of
        None \<Rightarrow> None
      | Some n \<Rightarrow> Some (if ToBoolean n then n else Value 0))"

text \<open>A number below zero; \<^verbatim>\<open>NaN\<close> is not.\<close>

fun negative :: "float64 \<Rightarrow> bool" where
  "negative (Value q) = (q < 0)"
| "negative MinusInfinity = True"
| "negative n = False"

text \<open>A \<^verbatim>\<open>wait\<close> of the declared type, as one of these values.\<close>

fun argument_of :: "number option \<Rightarrow> argument" where
  "argument_of None = ArgUndefined"
| "argument_of (Some NaN) = ArgNumber NotANumber"
| "argument_of (Some (Finite n)) = ArgNumber (Value (of_int n))"

section \<open>A callable that calls back\<close>

text \<open>
  A callable that calls back into the wrapper while it runs (\<^verbatim>\<open>cancel\<close>, \<^verbatim>\<open>flush\<close>,
  the wrapper itself): it is given the variables of the closure and the host as they
  are when it is entered, and returns its value and what it has left of them. The inner
  functions that reach the callable from a call to the wrapper are written once more
  for such a callable; the constants are read off the closure as before, its own
  \<open>func\<close> apart. \<open>quiet f\<close> is the callable \<open>f\<close> that does not call back. A callable
  that throws, so that the call does not return, is not among them.
\<close>

type_synonym ('t, 'a, 'r) reentrant =
  "'t option \<Rightarrow> 'a list \<Rightarrow> ('t, 'a, 'r) state \<times> ('t, 'a) world
    \<Rightarrow> 'r \<times> ('t, 'a, 'r) state \<times> ('t, 'a) world"

definition quiet :: "('t option \<Rightarrow> 'a list \<Rightarrow> 'r) \<Rightarrow> ('t, 'a, 'r) reentrant" where
  "quiet f this args sw = (f this args, sw)"

fun invokeFunc_reentrant ::
  "('t, 'a, 'r) config \<Rightarrow> ('t, 'a, 'r) reentrant \<Rightarrow> int
    \<Rightarrow> ('t, 'a, 'r) state \<times> ('t, 'a) world
    \<Rightarrow> 'r option \<times> ('t, 'a, 'r) state \<times> ('t, 'a) world" where
  "invokeFunc_reentrant c g time (s, w) =
     (let args = lastArgs s;
          thisArg = lastThis s;
          s1 = s\<lparr>lastArgs := None, lastThis := None\<rparr>;
          s2 = s1\<lparr>lastInvokeTime := time\<rparr>;
          xs = (case args of None \<Rightarrow> [] | Some ys \<Rightarrow> ys);
          (v, s3, w3) = g thisArg xs (s2, w\<lparr>applied := applied w @ [(thisArg, xs)]\<rparr>);
          s4 = s3\<lparr>result := Some v\<rparr>
      in (result s4, s4, w3))"

fun leadingEdge_reentrant ::
  "('t, 'a, 'r) config \<Rightarrow> ('t, 'a, 'r) reentrant \<Rightarrow> int
    \<Rightarrow> ('t, 'a, 'r) state \<times> ('t, 'a) world
    \<Rightarrow> 'r option \<times> ('t, 'a, 'r) state \<times> ('t, 'a) world" where
  "leadingEdge_reentrant c g time (s, w) =
     (let s1 = s\<lparr>lastInvokeTime := time\<rparr>;
          (h, w1) = startTimer c (waitValue c) (s1, w);
          s2 = s1\<lparr>timerId := Some h\<rparr>
      in if leading c then invokeFunc_reentrant c g time (s2, w1) else (result s2, s2, w1))"

fun debounced_reentrant ::
  "('t, 'a, 'r) config \<Rightarrow> ('t, 'a, 'r) reentrant \<Rightarrow> int \<Rightarrow> 't option \<Rightarrow> 'a list
    \<Rightarrow> ('t, 'a, 'r) state \<times> ('t, 'a) world
    \<Rightarrow> 'r option \<times> ('t, 'a, 'r) state \<times> ('t, 'a) world" where
  "debounced_reentrant c g time this args (s, w) =
     (let isInvoking = shouldInvoke c s time;
          s1 = s\<lparr>lastArgs := Some args, lastThis := this, lastCallTime := Some time\<rparr>;
          fallthrough =
            (if timerId s1 = None then
               (let (h, w1) = startTimer c (waitValue c) (s1, w)
                in (result s1, s1\<lparr>timerId := Some h\<rparr>, w1))
             else (result s1, s1, w))
      in if isInvoking then
           (if timerId s1 = None then leadingEdge_reentrant c g time (s1, w)
            else if maxWait c \<noteq> None then
              (let (h, w1) = startTimer c (waitValue c) (s1, w)
               in invokeFunc_reentrant c g time (s1\<lparr>timerId := Some h\<rparr>, w1))
            else fallthrough)
         else fallthrough)"

section \<open>The host running the timers\<close>

text \<open>
  The host takes an outstanding timeout or frame request off its list and runs the
  callback. \<open>expirations\<close> is a run of such callbacks, each with the time the clock
  reads then, and no call to the wrapper in between.
\<close>

datatype event = TimeoutDue TimeoutId | FrameDue TimeoutId

fun host_runs :: "event \<Rightarrow> ('t, 'a) world \<Rightarrow> ('t, 'a) world" where
  "host_runs (TimeoutDue h) w = clearTimeout h w"
| "host_runs (FrameDue h) w = cancelAnimationFrame h w"

fun expirations ::
  "('t, 'a, 'r) config \<Rightarrow> (event \<times> int) list \<Rightarrow> ('t, 'a, 'r) state \<times> ('t, 'a) world
    \<Rightarrow> ('t, 'a, 'r) state \<times> ('t, 'a) world" where
  "expirations c [] sw = sw"
| "expirations c ((e, time) # es) (s, w) =
     expirations c es (snd (timerExpired c time (s, host_runs e w)))"

section \<open>Sample instances\<close>

text \<open>A callable that adds up its arguments, a browser with nothing scheduled, and four closures.\<close>

definition sum_args :: "unit option \<Rightarrow> int list \<Rightarrow> int" where
  "sum_args this xs = sum_list xs"

definition browser :: "(unit, int) world" where
  "browser = \<lparr>timeouts = [], frames = [], nextTimeout = 1, nextFrame = 7,
               timeoutObjects = False, applied = []\<rparr>"

definition plain32 :: "(unit, int, int) config" where
  "plain32 = \<lparr>func = sum_args, useRAF = False, waitValue = 32, leading = False,
               trailing = True, maxWait = None\<rparr>"

definition leading32 :: "(unit, int, int) config" where
  "leading32 = \<lparr>func = sum_args, useRAF = False, waitValue = 32, leading = True,
               trailing = True, maxWait = None\<rparr>"

definition framed :: "(unit, int, int) config" where
  "framed = \<lparr>func = sum_args, useRAF = True, waitValue = 0, leading = False,
               trailing = True, maxWait = Some 100\<rparr>"

definition maxed :: "(unit, int, int) config" where
  "maxed = \<lparr>func = sum_args, useRAF = False, waitValue = 32, leading = False,
             trailing = True, maxWait = Some 64\<rparr>"

text \<open>Two calls 10 ms apart on a fresh \<open>plain32\<close>: the second is waiting for its timer.\<close>

definition burst :: "(unit, int, int) state \<times> (unit, int) world" where
  "burst = snd (debounced plain32 110 None [3]
             (snd (debounced plain32 100 None [1, 2] (initial, browser))))"

text \<open>Two calls on a fresh \<open>leading32\<close> and then a flush: nothing is waiting any more.\<close>

definition flushed :: "(unit, int, int) state \<times> (unit, int) world" where
  "flushed = snd (flush leading32 20 (snd (debounced leading32 10 None [2]
               (snd (debounced leading32 0 None [1] (initial, browser))))))"

text \<open>A callable that cancels the wrapper it is wrapped in, and returns 0.\<close>

definition cancelling :: "(unit, int, int) reentrant" where
  "cancelling this args sw = (0, cancel leading32 sw)"

section \<open>Facts about the inner functions\<close>

lemma debounce_of_function:
  "debounce hasRAF (JSFunction f) wait options =
     Inr (\<lparr>func = f, useRAF = (wait = None \<and> hasRAF), waitValue = or_zero (Number wait),
           leading = (case options of JSObject ob \<Rightarrow> truthy (prop_value (opt_leading ob))
                      | _ \<Rightarrow> False),
           trailing = (case options of
                         JSObject ob \<Rightarrow> (if has_key (opt_trailing ob)
                                          then truthy (prop_value (opt_trailing ob)) else True)
                       | _ \<Rightarrow> True),
           maxWait = (case options of
                        JSObject ob \<Rightarrow>
                          (if has_key (opt_maxWait ob)
                           then Some (max (or_zero (Number (prop_value (opt_maxWait ob))))
                                          (or_zero (Number wait)))
                           else None)
                      | _ \<Rightarrow> None)\<rparr>, initial)"
  by (cases options) (simp_all add: debounce_def isObject_def Let_def)

lemma typeof_function: "(typeof fn = ''function'') = (\<exists>f. fn = JSFunction f)"
  by (cases fn) simp_all

lemma debounce_Inr_function:
  assumes "debounce hasRAF fn wait options = Inr (c, s0)"
  shows "\<exists>f. fn = JSFunction f"
  using assms by (cases fn) (simp_all add: debounce_def)

lemma debounce_useRAF_wait:
  assumes "debounce hasRAF fn wait options = Inr (c, s0)"
  shows "useRAF c \<longrightarrow> waitValue c = 0"
proof -
  from debounce_Inr_function [OF assms] obtain f where "fn = JSFunction f" ..
  with assms show ?thesis
    by (auto simp: debounce_of_function)
qed

lemma not_shouldInvoke_wait:
  "\<not> shouldInvoke c s time \<Longrightarrow> 0 < waitValue c"
  by (cases "lastCallTime s") (auto simp: shouldInvoke_def Let_def)

lemma burst_eq:
  "burst = (\<lparr>lastArgs = Some [3], lastThis = None, result = None, lastCallTime = Some 110,
              timerId = Some (NumberHandle 1), lastInvokeTime = 100\<rparr>,
            browser\<lparr>timeouts := [(NumberHandle 1, 32)], nextTimeout := 2\<rparr>)"
  by (simp add: burst_def plain32_def initial_def browser_def shouldInvoke_def setTimeout_def
      timeoutHandle_def Let_def)

lemma flushed_eq:
  "flushed = (\<lparr>lastArgs = None, lastThis = None, result = Some 2, lastCallTime = Some 10,
              timerId = None, lastInvokeTime = 20\<rparr>,
            browser\<lparr>timeouts := [(NumberHandle 1, 32)], nextTimeout := 2,
              applied := [(None, [1]), (None, [2])]\<rparr>)"
  by (simp add: flushed_def leading32_def initial_def browser_def shouldInvoke_def setTimeout_def
      timeoutHandle_def func_apply_def sum_args_def Let_def)

lemma host_runs_applied: "applied (host_runs e w) = applied w"
  by (cases e) (simp_all add: clearTimeout_def cancelAnimationFrame_def)

lemma timerExpired_nothing_pending:
  assumes "lastArgs s = None"
  shows "case timerExpired c time (s, w) of (r, s', w') \<Rightarrow>
           lastArgs s' = None \<and> result s' = result s \<and> applied w' = applied w"
  using assms
  by (simp add: Let_def setTimeout_def requestAnimationFrame_def cancelAnimationFrame_def
      split: prod.splits option.splits)

lemma expirations_nothing_pending:
  "lastArgs s = None \<Longrightarrow>
     lastArgs (fst (expirations c es (s, w))) = None
     \<and> result (fst (expirations c es (s, w))) = result s
     \<and> applied (snd (expirations c es (s, w))) = applied w"
proof (induction es arbitrary: s w)
  case Nil
  then show ?case by simp
next
  case (Cons a es)
  obtain e time where a: "a = (e, time)" by (cases a)
  obtain r s' w' where step: "timerExpired c time (s, host_runs e w) = (r, s', w')"
    by (cases "timerExpired c time (s, host_runs e w)")
  from timerExpired_nothing_pending [OF Cons.prems, where c = c and time = time
      and w = "host_runs e w"] step
  have "lastArgs s' = None" and "result s' = result s" and "applied w' = applied w"
    by (simp_all add: host_runs_applied)
  with Cons.IH [of s' w'] show ?case
    by (simp add: a step del: timerExpired.simps)
qed

lemma debounce_plain32:
  "debounce False (JSFunction sum_args) (Some (Finite 32)) JSUndefined = Inr (plain32, initial)"
  by (simp add: debounce_def plain32_def isObject_def Let_def)

lemma debounce_leading32:
  "debounce False (JSFunction sum_args) (Some (Finite 32))
     (JSObject \<lparr>opt_maxWait = Missing, opt_leading = Has (Some True), opt_trailing = Missing\<rparr>)
   = Inr (leading32, initial)"
  by (simp add: debounce_def leading32_def isObject_def Let_def)

lemma debounce_framed:
  "debounce True (JSFunction sum_args) None
     (JSObject \<lparr>opt_maxWait = Has (Some (Finite 100)), opt_leading = Missing, opt_trailing = Missing\<rparr>)
   = Inr (framed, initial)"
  by (simp add: debounce_def framed_def isObject_def Let_def)


lemma invokeFunc_eq:
  "invokeFunc c time (s, w) =
     (Some (func c (lastThis s) (case lastArgs s of None \<Rightarrow> [] | Some ys \<Rightarrow> ys)),
      s\<lparr>lastArgs := None, lastThis := None, lastInvokeTime := time,
        result := Some (func c (lastThis s) (case lastArgs s of None \<Rightarrow> [] | Some ys \<Rightarrow> ys))\<rparr>,
      w\<lparr>applied := applied w @ [(lastThis s, case lastArgs s of None \<Rightarrow> [] | Some ys \<Rightarrow> ys)]\<rparr>)"
  by (simp add: func_apply_def Let_def)

lemma trailingEdge_eq:
  "trailingEdge c time (s, w) =
     (case lastArgs s of
        Some xs \<Rightarrow>
          if trailing c
          then (Some (func c (lastThis s) xs),
                s\<lparr>timerId := None, lastArgs := None, lastThis := None, lastInvokeTime := time,
                  result := Some (func c (lastThis s) xs)\<rparr>,
                w\<lparr>applied := applied w @ [(lastThis s, xs)]\<rparr>)
          else (result s, s\<lparr>timerId := None, lastArgs := None, lastThis := None\<rparr>, w)
      | None \<Rightarrow> (result s, s\<lparr>timerId := None, lastArgs := None, lastThis := None\<rparr>, w))"
  by (simp add: func_apply_def Let_def split: option.splits)

lemma waitValue_of_typed:
  "waitValue_of parse (argument_of wait) = Some (Value (of_int (or_zero (Number wait))))"
proof (cases wait)
  case None
  then show ?thesis by (simp add: waitValue_of_def)
next
  case (Some n)
  then show ?thesis by (cases n) (simp_all add: waitValue_of_def)
qed

lemma invokeFunc_reentrant_quiet:
  "invokeFunc_reentrant c (quiet (func c)) time (s, w) = invokeFunc c time (s, w)"
  by (simp add: quiet_def func_apply_def Let_def)

lemma debounced_reentrant_quiet:
  "debounced_reentrant c (quiet (func c)) t this args (s, w) = debounced c t this args (s, w)"
  by (simp add: quiet_def func_apply_def Let_def split: prod.splits)

lemma invokeFunc_reentrant_timerId:
  "timerId (fst (snd (invokeFunc_reentrant c g time (s, w)))) =
     timerId (fst (snd (g (lastThis s) (case lastArgs s of None \<Rightarrow> [] | Some ys \<Rightarrow> ys)
       (s\<lparr>lastArgs := None, lastThis := None, lastInvokeTime := time\<rparr>,
        w\<lparr>applied := applied w @ [(lastThis s, case lastArgs s of None \<Rightarrow> [] | Some ys \<Rightarrow> ys)]\<rparr>))))"
  by (simp add: Let_def split: prod.splits)

lemma debounced_reentrant_armed:
  "\<exists>sa wa.
     lastArgs sa = Some args \<and> lastThis sa = this \<and> lastCallTime sa = Some t
     \<and> result sa = result s \<and> applied wa = applied w \<and> pending sa
     \<and> (case timerId s of
          None \<Rightarrow>
            timerId sa = Some (timeoutHandle w)
            \<and> timeouts wa = timeouts w @ [(timeoutHandle w, waitValue c)]
            \<and> frames wa = frames w
        | Some h0 \<Rightarrow>
            if shouldInvoke c s t \<and> maxWait c \<noteq> None then
              (if useRAF c \<and> handle_is_number (Some h0)
               then timerId sa = Some (NumberHandle (nextFrame w))
                    \<and> frames wa = filter (\<lambda>e. e \<noteq> h0) (frames w) @ [NumberHandle (nextFrame w)]
                    \<and> timeouts wa = timeouts w
               else timerId sa = Some (timeoutHandle w)
                    \<and> timeouts wa = timeouts w @ [(timeoutHandle w, waitValue c)]
                    \<and> frames wa = frames w)
            else timerId sa = Some h0 \<and> timeouts wa = timeouts w \<and> frames wa = frames w)
     \<and> debounced_reentrant c g t this args (s, w) =
         (if shouldInvoke c s t \<and> (if timerId s = None then leading c else maxWait c \<noteq> None)
          then invokeFunc_reentrant c g t (sa, wa) else (result s, sa, wa))"
proof (cases "timerId s")
  case None
  show ?thesis
  proof (cases "shouldInvoke c s t")
    case True
    with None show ?thesis
      by (intro exI [where x = "s\<lparr>lastArgs := Some args, lastThis := this, lastCallTime := Some t,
            lastInvokeTime := t, timerId := Some (timeoutHandle w)\<rparr>"]
          exI [where x = "snd (setTimeout (waitValue c) w)"])
        (simp add: pending_def setTimeout_def Let_def del: invokeFunc_reentrant.simps)
  next
    case False
    with None show ?thesis
      by (intro exI [where x = "s\<lparr>lastArgs := Some args, lastThis := this, lastCallTime := Some t,
            timerId := Some (timeoutHandle w)\<rparr>"]
          exI [where x = "snd (setTimeout (waitValue c) w)"])
        (simp add: pending_def setTimeout_def Let_def del: invokeFunc_reentrant.simps)
  qed
next
  case (Some h0)
  show ?thesis
  proof (cases "shouldInvoke c s t \<and> maxWait c \<noteq> None")
    case True
    with Some show ?thesis
      by (intro exI [where x = "s\<lparr>lastArgs := Some args, lastThis := this, lastCallTime := Some t,
            timerId := Some (fst (startTimer c (waitValue c) (s, w)))\<rparr>"]
          exI [where x = "snd (startTimer c (waitValue c) (s, w))"])
        (auto simp: pending_def setTimeout_def requestAnimationFrame_def cancelAnimationFrame_def
          Let_def simp del: invokeFunc_reentrant.simps)
  next
    case False
    with Some show ?thesis
      by (intro exI [where x = "s\<lparr>lastArgs := Some args, lastThis := this, lastCallTime := Some t\<rparr>"]
          exI [where x = w])
        (auto simp: pending_def Let_def simp del: invokeFunc_reentrant.simps)
  qed
qed

section \<open>The decision\<close>

text \<open>
  C1. \<open>shouldInvoke\<close> at time \<open>t\<close> is true exactly when there was no call yet, or the
  time since the last call is at least \<open>wait\<close>, or that time is negative, or \<open>maxWait\<close>
  is set and the time since the last invocation is at least \<open>maxWait\<close>.
\<close>

theorem shouldInvoke_iff:
  "shouldInvoke c s t =
     (lastCallTime s = None
      \<or> (\<exists>lct. lastCallTime s = Some lct \<and> t - lct \<ge> waitValue c)
      \<or> (\<exists>lct. lastCallTime s = Some lct \<and> t - lct < 0)
      \<or> (\<exists>lct mw. lastCallTime s = Some lct \<and> maxWait c = Some mw \<and> t - lastInvokeTime s \<ge> mw))"
  by (cases "lastCallTime s"; cases "maxWait c") (simp_all add: shouldInvoke_def)

theorem shouldInvoke_iff_witness:
  "shouldInvoke plain32 (initial\<lparr>lastCallTime := Some 10\<rparr>) 42
   \<and> \<not> shouldInvoke plain32 (initial\<lparr>lastCallTime := Some 10\<rparr>) 41"
  using shouldInvoke_iff [where c = plain32 and s = "initial\<lparr>lastCallTime := Some 10\<rparr>" and t = 42]
    shouldInvoke_iff [where c = plain32 and s = "initial\<lparr>lastCallTime := Some 10\<rparr>" and t = 41]
  by (simp add: initial_def plain32_def)

section \<open>The leading edge\<close>

text \<open>
  C2. A call at time \<open>t\<close> for which \<open>shouldInvoke\<close> holds while no timer is
  outstanding sets \<open>lastInvokeTime\<close> to \<open>t\<close>, starts a timeout of \<open>wait\<close>, and applies
  the callable at once exactly when \<open>leading\<close> is set; otherwise it returns the previous
  result and applies nothing.
\<close>

theorem debounced_leading_edge:
  assumes "shouldInvoke c s t" and "timerId s = None"
  shows "case debounced c t this args (s, w) of (r, s', w') \<Rightarrow>
           lastInvokeTime s' = t \<and> lastCallTime s' = Some t
           \<and> timerId s' = Some (timeoutHandle w)
           \<and> timeouts w' = timeouts w @ [(timeoutHandle w, waitValue c)]
           \<and> frames w' = frames w
           \<and> (if leading c
              then applied w' = applied w @ [(this, args)] \<and> r = Some (func c this args)
                   \<and> result s' = r \<and> lastArgs s' = None \<and> lastThis s' = None
              else applied w' = applied w \<and> r = result s \<and> result s' = result s
                   \<and> lastArgs s' = Some args \<and> lastThis s' = this)"
  using assms by (simp add: Let_def setTimeout_def func_apply_def split: prod.splits)

theorem debounced_leading_edge_witness:
  "shouldInvoke leading32 initial 100 \<and> timerId (initial :: (unit, int, int) state) = None
   \<and> shouldInvoke plain32 initial 100
   \<and> debounced leading32 100 None [1, 2] (initial, browser) =
       (Some 3,
        \<lparr>lastArgs = None, lastThis = None, result = Some 3, lastCallTime = Some 100,
          timerId = Some (NumberHandle 1), lastInvokeTime = 100\<rparr>,
        browser\<lparr>timeouts := [(NumberHandle 1, 32)], nextTimeout := 2, applied := [(None, [1, 2])]\<rparr>)
   \<and> debounced plain32 100 None [1, 2] (initial, browser) =
       (None,
        \<lparr>lastArgs = Some [1, 2], lastThis = None, result = None, lastCallTime = Some 100,
          timerId = Some (NumberHandle 1), lastInvokeTime = 100\<rparr>,
        browser\<lparr>timeouts := [(NumberHandle 1, 32)], nextTimeout := 2\<rparr>)"
  using debounced_leading_edge [where c = leading32 and s = initial and t = 100 and this = None
      and args = "[1, 2]" and w = browser]
    debounced_leading_edge [where c = plain32 and s = initial and t = 100 and this = None
      and args = "[1, 2]" and w = browser]
  by (simp add: shouldInvoke_def initial_def leading32_def plain32_def browser_def
      setTimeout_def timeoutHandle_def func_apply_def sum_args_def Let_def)

section \<open>Calls in a tight loop\<close>

text \<open>
  C3, as the code has it. A call at time \<open>t\<close> for which \<open>shouldInvoke\<close> holds while a
  timer is outstanding and \<open>maxWait\<close> is set applies the callable at once, whatever
  \<open>leading\<close> is, and arms the timer again: with a new timeout of \<open>wait\<close> (the old one is
  not cleared), or, when frames are in use and the outstanding handle is a number, by
  cancelling the frame request of that handle and requesting a new frame.
\<close>

theorem debounced_tight_loop:
  assumes "shouldInvoke c s t" and "timerId s = Some h0" and "maxWait c = Some mw"
  shows "case debounced c t this args (s, w) of (r, s', w') \<Rightarrow>
           applied w' = applied w @ [(this, args)] \<and> r = Some (func c this args)
           \<and> result s' = r \<and> lastInvokeTime s' = t \<and> lastCallTime s' = Some t
           \<and> lastArgs s' = None \<and> lastThis s' = None
           \<and> (if useRAF c \<and> handle_is_number (Some h0)
              then timerId s' = Some (NumberHandle (nextFrame w))
                   \<and> frames w' = filter (\<lambda>e. e \<noteq> h0) (frames w) @ [NumberHandle (nextFrame w)]
                   \<and> timeouts w' = timeouts w
              else timerId s' = Some (timeoutHandle w)
                   \<and> timeouts w' = timeouts w @ [(timeoutHandle w, waitValue c)]
                   \<and> frames w' = frames w)"
  using assms
  by (simp add: Let_def setTimeout_def timeoutHandle_def requestAnimationFrame_def cancelAnimationFrame_def
      func_apply_def split: prod.splits)

theorem debounced_tight_loop_witness:
  "shouldInvoke maxed (fst (snd (debounced maxed 0 None [4] (initial, browser)))) 70
   \<and> timerId (fst (snd (debounced maxed 0 None [4] (initial, browser)))) = Some (NumberHandle 1)
   \<and> maxWait maxed = Some 64 \<and> \<not> leading maxed
   \<and> debounced maxed 70 None [5] (snd (debounced maxed 0 None [4] (initial, browser))) =
       (Some 5,
        \<lparr>lastArgs = None, lastThis = None, result = Some 5, lastCallTime = Some 70,
          timerId = Some (NumberHandle 2), lastInvokeTime = 70\<rparr>,
        browser\<lparr>timeouts := [(NumberHandle 1, 32), (NumberHandle 2, 32)], nextTimeout := 3,
          applied := [(None, [5])]\<rparr>)"
  using debounced_tight_loop [where c = maxed
      and s = "fst (snd (debounced maxed 0 None [4] (initial, browser)))" and t = 70
      and this = None and args = "[5]"
      and w = "snd (snd (debounced maxed 0 None [4] (initial, browser)))"
      and ?h0.0 = "NumberHandle 1" and mw = 64]
  by (simp add: shouldInvoke_def maxed_def initial_def browser_def
      setTimeout_def timeoutHandle_def func_apply_def sum_args_def Let_def)

text \<open>
  C3 as stated fails when frames are in use: built with no \<open>wait\<close> in a browser that has
  \<^verbatim>\<open>requestAnimationFrame\<close>, the second of two calls in the same millisecond starts no
  timeout at all; it requests an animation frame.
\<close>

theorem debounced_tight_loop_frame_counterexample:
  "debounce True (JSFunction sum_args) None
     (JSObject \<lparr>opt_maxWait = Has (Some (Finite 100)), opt_leading = Missing, opt_trailing = Missing\<rparr>)
     = Inr (framed, initial)
   \<and> shouldInvoke framed (fst (snd (debounced framed 5 None [1] (initial, browser)))) 5
   \<and> timerId (fst (snd (debounced framed 5 None [1] (initial, browser)))) = Some (NumberHandle 1)
   \<and> maxWait framed = Some 100
   \<and> timeouts (snd (snd (debounced framed 5 None [1] (initial, browser)))) = [(NumberHandle 1, 0)]
   \<and> timeouts (snd (snd (debounced framed 5 None [2]
         (snd (debounced framed 5 None [1] (initial, browser)))))) = [(NumberHandle 1, 0)]
   \<and> frames (snd (snd (debounced framed 5 None [2]
         (snd (debounced framed 5 None [1] (initial, browser)))))) = [NumberHandle 7]
   \<and> timerId (fst (snd (debounced framed 5 None [2]
         (snd (debounced framed 5 None [1] (initial, browser)))))) = Some (NumberHandle 7)"
  by (simp add: debounce_framed)
    (simp add: framed_def browser_def initial_def shouldInvoke_def setTimeout_def timeoutHandle_def
      requestAnimationFrame_def cancelAnimationFrame_def func_apply_def Let_def)

section \<open>The timer callback\<close>

text \<open>
  C4. For a closure built by \<open>debounce\<close>, when the timer callback runs at time \<open>now\<close>:
  if \<open>shouldInvoke\<close> holds, the timer slot is cleared, the pending arguments are cleared,
  and the callable is applied to them exactly when \<open>trailing\<close> is set and arguments are
  pending, the result being replaced only then; otherwise a timeout is started for
  \<open>min (wait - sinceLastCall) (maxWait - sinceLastInvoke)\<close> when \<open>maxWait\<close> is set and
  for \<open>wait - sinceLastCall\<close> when it is not.
\<close>

theorem timerExpired_outcome:
  assumes "debounce hasRAF fn wait options = Inr (c, s0)"
  shows "case timerExpired c now (s, w) of (r, s', w') \<Rightarrow>
           if shouldInvoke c s now then
             timerId s' = None \<and> lastArgs s' = None \<and> lastThis s' = None
             \<and> lastCallTime s' = lastCallTime s
             \<and> timeouts w' = timeouts w \<and> frames w' = frames w \<and> r = result s'
             \<and> (case lastArgs s of
                  Some xs \<Rightarrow>
                    if trailing c
                    then applied w' = applied w @ [(lastThis s, xs)]
                         \<and> result s' = Some (func c (lastThis s) xs) \<and> lastInvokeTime s' = now
                    else applied w' = applied w \<and> result s' = result s
                         \<and> lastInvokeTime s' = lastInvokeTime s
                | None \<Rightarrow> applied w' = applied w \<and> result s' = result s
                         \<and> lastInvokeTime s' = lastInvokeTime s)
           else
             r = None \<and> s' = s\<lparr>timerId := Some (timeoutHandle w)\<rparr>
             \<and> applied w' = applied w \<and> frames w' = frames w
             \<and> (\<exists>lct. lastCallTime s = Some lct
                  \<and> timeouts w' = timeouts w @
                      [(timeoutHandle w,
                        case maxWait c of
                          Some mw \<Rightarrow> min (waitValue c - (now - lct)) (mw - (now - lastInvokeTime s))
                        | None \<Rightarrow> waitValue c - (now - lct))])"
proof (cases "shouldInvoke c s now")
  case True
  then show ?thesis
    by (simp add: trailingEdge_eq del: trailingEdge.simps split: option.splits)
next
  case False
  then have "0 < waitValue c" by (rule not_shouldInvoke_wait)
  with debounce_useRAF_wait [OF assms] have raf: "\<not> useRAF c" by auto
  from False obtain lct where lct: "lastCallTime s = Some lct"
    by (cases "lastCallTime s") (auto simp: shouldInvoke_def)
  from False raf lct show ?thesis
    by (simp add: setTimeout_def remainingWait_def Let_def split: option.splits)
qed

theorem timerExpired_outcome_witness:
  "debounce False (JSFunction sum_args) (Some (Finite 32)) JSUndefined = Inr (plain32, initial)
   \<and> \<not> shouldInvoke plain32 (fst burst) 132
   \<and> timerExpired plain32 132 (fst burst, host_runs (TimeoutDue (NumberHandle 1)) (snd burst)) =
       (None,
        \<lparr>lastArgs = Some [3], lastThis = None, result = None, lastCallTime = Some 110,
          timerId = Some (NumberHandle 2), lastInvokeTime = 100\<rparr>,
        browser\<lparr>timeouts := [(NumberHandle 2, 10)], nextTimeout := 3\<rparr>)
   \<and> shouldInvoke plain32 (fst burst) 142
   \<and> timerExpired plain32 142
        (\<lparr>lastArgs = Some [3], lastThis = None, result = None, lastCallTime = Some 110,
           timerId = Some (NumberHandle 2), lastInvokeTime = 100\<rparr>,
         browser\<lparr>timeouts := [], nextTimeout := 3\<rparr>) =
       (Some 3,
        \<lparr>lastArgs = None, lastThis = None, result = Some 3, lastCallTime = Some 110,
          timerId = None, lastInvokeTime = 142\<rparr>,
        browser\<lparr>timeouts := [], nextTimeout := 3, applied := [(None, [3])]\<rparr>)"
  using timerExpired_outcome [OF debounce_plain32, where now = 132 and s = "fst burst"
      and w = "host_runs (TimeoutDue (NumberHandle 1)) (snd burst)"]
    timerExpired_outcome [OF debounce_plain32, where now = 142
      and s = "\<lparr>lastArgs = Some [3], lastThis = None, result = None, lastCallTime = Some 110,
           timerId = Some (NumberHandle 2), lastInvokeTime = 100\<rparr>"
      and w = "browser\<lparr>timeouts := [], nextTimeout := 3\<rparr>"]
  by (simp add: burst_eq debounce_plain32)
    (simp add: plain32_def browser_def shouldInvoke_def remainingWait_def setTimeout_def
      timeoutHandle_def clearTimeout_def func_apply_def sum_args_def Let_def)

section \<open>Flush\<close>

text \<open>
  C5. \<open>flush\<close> with a timer outstanding runs the trailing edge at the current time and
  returns its result; with none it returns the current result (\<open>None\<close> on a fresh
  closure) and changes neither the closure nor the host.
\<close>

theorem flush_outcome:
  "case flush c now (s, w) of (r, s', w') \<Rightarrow>
     (case timerId s of
        None \<Rightarrow> r = result s \<and> s' = s \<and> w' = w
      | Some h \<Rightarrow>
          (r, s', w') = trailingEdge c now (s, w)
          \<and> r = result s' \<and> timerId s' = None \<and> lastArgs s' = None \<and> lastThis s' = None
          \<and> lastCallTime s' = lastCallTime s \<and> timeouts w' = timeouts w \<and> frames w' = frames w
          \<and> (case lastArgs s of
               Some xs \<Rightarrow>
                 if trailing c
                 then applied w' = applied w @ [(lastThis s, xs)]
                      \<and> result s' = Some (func c (lastThis s) xs) \<and> lastInvokeTime s' = now
                 else applied w' = applied w \<and> result s' = result s
                      \<and> lastInvokeTime s' = lastInvokeTime s
             | None \<Rightarrow> applied w' = applied w \<and> result s' = result s
                      \<and> lastInvokeTime s' = lastInvokeTime s))
     \<and> flush c now (initial, w) = (None, initial, w)"
  by (cases "timerId s")
    (simp_all add: trailingEdge_eq initial_def del: trailingEdge.simps split: option.splits)

theorem flush_outcome_witness:
  "flush plain32 120 burst =
     (Some 3,
      \<lparr>lastArgs = None, lastThis = None, result = Some 3, lastCallTime = Some 110,
        timerId = None, lastInvokeTime = 120\<rparr>,
      browser\<lparr>timeouts := [(NumberHandle 1, 32)], nextTimeout := 2, applied := [(None, [3])]\<rparr>)
   \<and> flush plain32 120 (initial, browser) = (None, initial, browser)"
  using flush_outcome [where c = plain32 and now = 120 and s = "fst burst" and w = "snd burst"]
    flush_outcome [where c = plain32 and now = 120 and s = initial and w = browser]
  by (simp add: burst_eq) (simp add: plain32_def initial_def browser_def func_apply_def sum_args_def)

section \<open>Cancel\<close>

text \<open>
  C6, as the code has it. \<open>cancel\<close> clears the outstanding timer, sets \<open>lastArgs\<close>,
  \<open>lastThis\<close>, \<open>lastCallTime\<close> and \<open>timerId\<close> to undefined and \<open>lastInvokeTime\<close> to 0,
  and leaves \<open>result\<close> and the trace alone; a second \<open>cancel\<close> changes nothing more.
  With no timer outstanding the host is untouched, but the closure is unchanged only
  when the four variables were undefined and \<open>lastInvokeTime\<close> was 0 already.
\<close>

theorem cancel_outcome:
  "case cancel c (s, w) of (s', w') \<Rightarrow>
     lastArgs s' = None \<and> lastThis s' = None \<and> lastCallTime s' = None \<and> timerId s' = None
     \<and> lastInvokeTime s' = 0 \<and> result s' = result s \<and> applied w' = applied w
     \<and> (case timerId s of
          None \<Rightarrow> w' = w
        | Some h \<Rightarrow>
            timeouts w' = filter (\<lambda>e. fst e \<noteq> h) (timeouts w)
            \<and> frames w' = (if useRAF c \<and> handle_is_number (Some h)
                            then filter (\<lambda>e. e \<noteq> h) (frames w) else frames w))
     \<and> cancel c (s', w') = (s', w')
     \<and> ((s', w') = (s, w)) =
         (timerId s = None \<and> lastArgs s = None \<and> lastThis s = None \<and> lastCallTime s = None
          \<and> lastInvokeTime s = 0)"
proof -
  obtain a b r l i v where s: "s = \<lparr>lastArgs = a, lastThis = b, result = r, lastCallTime = l,
      timerId = i, lastInvokeTime = v\<rparr>"
    by (cases s) simp
  show ?thesis
    by (cases i) (auto simp: s clearTimeout_def cancelAnimationFrame_def Let_def)
qed

theorem cancel_outcome_witness:
  "cancel plain32 burst = (initial, browser\<lparr>nextTimeout := 2\<rparr>)
   \<and> cancel plain32 (cancel plain32 burst) = cancel plain32 burst
   \<and> cancel plain32 (initial, browser) = (initial, browser)"
  using cancel_outcome [where c = plain32 and s = "fst burst" and w = "snd burst"]
    cancel_outcome [where c = plain32 and s = initial and w = browser]
  by (simp add: burst_eq) (simp add: plain32_def initial_def browser_def clearTimeout_def)

text \<open>
  C6 as stated fails in its last part: after a flush nothing is pending, yet \<open>cancel\<close>
  forgets the time of the last call, and the next call within \<open>wait\<close> of it is then a
  leading edge that applies the callable at once.
\<close>

theorem cancel_idle_counterexample:
  "\<not> pending (fst flushed) \<and> lastArgs (fst flushed) = None
   \<and> cancel leading32 flushed \<noteq> flushed
   \<and> lastCallTime (fst flushed) = Some 10 \<and> lastCallTime (fst (cancel leading32 flushed)) = None
   \<and> fst (debounced leading32 30 None [5] flushed) = Some 2
   \<and> fst (debounced leading32 30 None [5] (cancel leading32 flushed)) = Some 5"
  by (simp add: flushed_eq pending_def)
    (simp add: leading32_def browser_def shouldInvoke_def setTimeout_def
      timeoutHandle_def func_apply_def sum_args_def Let_def)

section \<open>Construction\<close>

text \<open>
  C7. \<open>debounce\<close> fails, with the type error, exactly when \<open>typeof\<close> of its first
  argument is not \<^verbatim>\<open>"function"\<close>; given a function, every options value that is not an
  object is treated as absent: the closure is built with \<open>leading\<close> false, \<open>trailing\<close>
  true and no \<open>maxWait\<close>.
\<close>

theorem debounce_TypeError_iff:
  "((\<exists>e. debounce hasRAF fn wait options = Inl e) = (typeof fn \<noteq> ''function''))
   \<and> (typeof fn \<noteq> ''function''
        \<longrightarrow> debounce hasRAF fn wait options = Inl (TypeError ''Expected a function''))
   \<and> (typeof fn = ''function'' \<and> \<not> isObject options
        \<longrightarrow> (\<exists>c. debounce hasRAF fn wait options = Inr (c, initial)
                 \<and> \<not> leading c \<and> trailing c \<and> maxWait c = None)
            \<and> debounce hasRAF fn wait options = debounce hasRAF fn wait JSUndefined)"
proof (cases "typeof fn = ''function''")
  case True
  then obtain f where fn: "fn = JSFunction f"
    by (auto simp: typeof_function)
  show ?thesis
    by (cases options) (simp_all add: fn debounce_of_function isObject_def)
next
  case False
  then show ?thesis by (simp add: debounce_def)
qed

theorem debounce_TypeError_iff_witness:
  "typeof (JSNumber (Finite 3) :: (unit, int, int) jsvalue) \<noteq> ''function''
   \<and> typeof (JSFunction sum_args) = ''function''
   \<and> \<not> isObject (JSNumber (Finite 1) :: (unit, int, int) jsvalue)
   \<and> \<not> isObject (JSNull :: (unit, int, int) jsvalue)
   \<and> debounce False (JSNumber (Finite 3) :: (unit, int, int) jsvalue) (Some (Finite 32)) JSUndefined
     = Inl (TypeError ''Expected a function'')
   \<and> debounce False (JSFunction sum_args) (Some (Finite 32)) (JSNumber (Finite 1))
     = Inr (plain32, initial)
   \<and> debounce False (JSFunction sum_args) (Some (Finite 32)) JSNull = Inr (plain32, initial)
   \<and> debounce False (JSFunction sum_args) (Some (Finite 32)) (JSString ''leading'')
     = Inr (plain32, initial)"
  using debounce_TypeError_iff [where hasRAF = False
      and fn = "JSNumber (Finite 3) :: (unit, int, int) jsvalue"
      and wait = "Some (Finite 32)" and options = JSUndefined]
    debounce_TypeError_iff [where hasRAF = False and fn = "JSFunction sum_args"
      and wait = "Some (Finite 32)" and options = "JSNumber (Finite 1)"]
    debounce_TypeError_iff [where hasRAF = False and fn = "JSFunction sum_args"
      and wait = "Some (Finite 32)" and options = JSNull]
    debounce_TypeError_iff [where hasRAF = False and fn = "JSFunction sum_args"
      and wait = "Some (Finite 32)" and options = "JSString ''leading''"]
  by (simp add: isObject_def debounce_plain32)

text \<open>
  C8, as the code has it. For every value passed as \<open>wait\<close> whose conversion does not
  throw, the \<open>wait\<close> of the closure is the number \<^verbatim>\<open>Number(wait)\<close> gives, never \<^verbatim>\<open>NaN\<close>
  and negative exactly when that number is negative, and it is 0 when that number is
  \<^verbatim>\<open>NaN\<close> or zero, so whenever \<open>wait\<close> is absent or cannot be read as a number; when
  the conversion throws, so does the constructor. On a \<open>wait\<close> of the declared type
  this is the \<open>waitValue\<close> that \<open>debounce\<close> puts in the closure.
\<close>

theorem waitValue_of_coerced:
  "(case ToNumber parse wait of
      None \<Rightarrow> waitValue_of parse wait = None
    | Some n \<Rightarrow>
        waitValue_of parse wait = Some (if n = NotANumber \<or> n = Value 0 then Value 0 else n)
        \<and> (\<exists>m. waitValue_of parse wait = Some m \<and> m \<noteq> NotANumber \<and> negative m = negative n))
   \<and> waitValue_of parse ArgUndefined = Some (Value 0)
   \<and> (debounce hasRAF fn w options = Inr (c, s0)
        \<longrightarrow> waitValue_of parse (argument_of w) = Some (Value (of_int (waitValue c))))"
proof -
  have a: "case ToNumber parse wait of
      None \<Rightarrow> waitValue_of parse wait = None
    | Some n \<Rightarrow>
        waitValue_of parse wait = Some (if n = NotANumber \<or> n = Value 0 then Value 0 else n)
        \<and> (\<exists>m. waitValue_of parse wait = Some m \<and> m \<noteq> NotANumber \<and> negative m = negative n)"
  proof (cases "ToNumber parse wait")
    case None
    then show ?thesis by (simp add: waitValue_of_def)
  next
    case (Some n)
    then show ?thesis by (cases n) (auto simp: waitValue_of_def)
  qed
  have b: "waitValue_of parse ArgUndefined = Some (Value 0)"
    by (simp add: waitValue_of_def)
  have c: "debounce hasRAF fn w options = Inr (c, s0)
        \<longrightarrow> waitValue_of parse (argument_of w) = Some (Value (of_int (waitValue c)))"
  proof
    assume built: "debounce hasRAF fn w options = Inr (c, s0)"
    from debounce_Inr_function [OF built] obtain f where "fn = JSFunction f" ..
    with built have "waitValue c = or_zero (Number w)"
      by (auto simp: debounce_of_function)
    then show "waitValue_of parse (argument_of w) = Some (Value (of_int (waitValue c)))"
      by (simp add: waitValue_of_typed)
  qed
  from a b c show ?thesis by blast
qed

theorem waitValue_of_coerced_witness:
  "waitValue_of (\<lambda>s. if s = ''12'' then Value 12 else NotANumber) (ArgString ''12'') = Some (Value 12)
   \<and> waitValue_of (\<lambda>s. if s = ''12'' then Value 12 else NotANumber) (ArgString ''abc'') = Some (Value 0)
   \<and> waitValue_of (\<lambda>s. NotANumber) ArgNull = Some (Value 0)
   \<and> waitValue_of (\<lambda>s. NotANumber) (ArgBoolean True) = Some (Value 1)
   \<and> waitValue_of (\<lambda>s. NotANumber) (ArgNumber (Value (1 / 2))) = Some (Value (1 / 2))
   \<and> waitValue_of (\<lambda>s. NotANumber) (ArgNumber PlusInfinity) = Some PlusInfinity
   \<and> waitValue_of (\<lambda>s. NotANumber) (ArgNumber NotANumber) = Some (Value 0)
   \<and> debounce False (JSFunction sum_args) (Some (Finite 32)) JSUndefined = Inr (plain32, initial)
   \<and> waitValue_of (\<lambda>s. NotANumber) (argument_of (Some (Finite 32))) = Some (Value 32)
   \<and> waitValue plain32 = 32"
  using waitValue_of_coerced [where parse = "\<lambda>s. if s = ''12'' then Value 12 else NotANumber"
      and wait = "ArgString ''12''" and hasRAF = False and fn = "JSFunction sum_args"
      and w = "Some (Finite 32)" and options = JSUndefined and c = plain32 and ?s0.0 = initial]
    waitValue_of_coerced [where parse = "\<lambda>s. if s = ''12'' then Value 12 else NotANumber"
      and wait = "ArgString ''abc''" and hasRAF = False and fn = "JSFunction sum_args"
      and w = "Some (Finite 32)" and options = JSUndefined and c = plain32 and ?s0.0 = initial]
    waitValue_of_coerced [where parse = "\<lambda>s. NotANumber"
      and wait = "ArgNumber (Value (1 / 2))" and hasRAF = False and fn = "JSFunction sum_args"
      and w = "Some (Finite 32)" and options = JSUndefined and c = plain32 and ?s0.0 = initial]
  by (simp add: debounce_plain32 waitValue_of_def plain32_def)

text \<open>
  C8 as stated fails for a negative \<open>wait\<close>: nothing clamps it. And a symbol, which
  cannot be read as a number, gives no \<open>wait\<close> of 0: the conversion throws.
\<close>

theorem debounce_negative_wait_counterexample:
  "debounce False (JSFunction sum_args) (Some (Finite (- 5))) JSUndefined =
     Inr (\<lparr>func = sum_args, useRAF = False, waitValue = - 5, leading = False, trailing = True,
           maxWait = None\<rparr>, initial)
   \<and> waitValue \<lparr>func = sum_args, useRAF = False, waitValue = - 5, leading = False,
        trailing = True, maxWait = None\<rparr> < 0
   \<and> waitValue_of (\<lambda>s. NotANumber) (ArgNumber (Value (- 5))) = Some (Value (- 5))
   \<and> negative (Value (- 5))
   \<and> waitValue_of (\<lambda>s. NotANumber) (ArgNumber MinusInfinity) = Some MinusInfinity
   \<and> waitValue_of (\<lambda>s. NotANumber) ArgSymbol = None"
  by (simp add: debounce_of_function waitValue_of_def)

section \<open>After a call\<close>

text \<open>
  C9, as the code has it. Every call to the wrapper records the call and then has a
  timer in the slot before it applies the callable or returns: with the slot empty it
  starts a timeout of \<open>wait\<close>; in a tight loop it starts a new timeout, or a new frame
  request when frames are in use; otherwise, with a timer outstanding, it keeps that
  timer and starts nothing. The call then applies the callable (on the leading edge with
  \<open>leading\<close> set, and in a tight loop) or returns. So \<open>pending\<close> holds when the call
  returns, unless the callable was applied and has itself left the slot empty; for a
  callable that does not call back, this is the wrapper of the sections above.
\<close>

theorem debounced_reentrant_arms:
  "(\<exists>sa wa.
     lastArgs sa = Some args \<and> lastThis sa = this \<and> lastCallTime sa = Some t
     \<and> result sa = result s \<and> applied wa = applied w \<and> pending sa
     \<and> (case timerId s of
          None \<Rightarrow>
            timerId sa = Some (timeoutHandle w)
            \<and> timeouts wa = timeouts w @ [(timeoutHandle w, waitValue c)]
            \<and> frames wa = frames w
        | Some h0 \<Rightarrow>
            if shouldInvoke c s t \<and> maxWait c \<noteq> None then
              (if useRAF c \<and> handle_is_number (Some h0)
               then timerId sa = Some (NumberHandle (nextFrame w))
                    \<and> frames wa = filter (\<lambda>e. e \<noteq> h0) (frames w) @ [NumberHandle (nextFrame w)]
                    \<and> timeouts wa = timeouts w
               else timerId sa = Some (timeoutHandle w)
                    \<and> timeouts wa = timeouts w @ [(timeoutHandle w, waitValue c)]
                    \<and> frames wa = frames w)
            else timerId sa = Some h0 \<and> timeouts wa = timeouts w \<and> frames wa = frames w)
     \<and> debounced_reentrant c g t this args (s, w) =
         (if shouldInvoke c s t \<and> (if timerId s = None then leading c else maxWait c \<noteq> None)
          then invokeFunc_reentrant c g t (sa, wa) else (result s, sa, wa)))
   \<and> ((\<forall>s0 w0. timerId s0 \<noteq> None \<longrightarrow> timerId (fst (snd (g this args (s0, w0)))) \<noteq> None)
        \<longrightarrow> pending (fst (snd (debounced_reentrant c g t this args (s, w)))))
   \<and> debounced_reentrant c (quiet (func c)) t this args (s, w) = debounced c t this args (s, w)"
proof (intro conjI impI)
  show "\<exists>sa wa.
     lastArgs sa = Some args \<and> lastThis sa = this \<and> lastCallTime sa = Some t
     \<and> result sa = result s \<and> applied wa = applied w \<and> pending sa
     \<and> (case timerId s of
          None \<Rightarrow>
            timerId sa = Some (timeoutHandle w)
            \<and> timeouts wa = timeouts w @ [(timeoutHandle w, waitValue c)]
            \<and> frames wa = frames w
        | Some h0 \<Rightarrow>
            if shouldInvoke c s t \<and> maxWait c \<noteq> None then
              (if useRAF c \<and> handle_is_number (Some h0)
               then timerId sa = Some (NumberHandle (nextFrame w))
                    \<and> frames wa = filter (\<lambda>e. e \<noteq> h0) (frames w) @ [NumberHandle (nextFrame w)]
                    \<and> timeouts wa = timeouts w
               else timerId sa = Some (timeoutHandle w)
                    \<and> timeouts wa = timeouts w @ [(timeoutHandle w, waitValue c)]
                    \<and> frames wa = frames w)
            else timerId sa = Some h0 \<and> timeouts wa = timeouts w \<and> frames wa = frames w)
     \<and> debounced_reentrant c g t this args (s, w) =
         (if shouldInvoke c s t \<and> (if timerId s = None then leading c else maxWait c \<noteq> None)
          then invokeFunc_reentrant c g t (sa, wa) else (result s, sa, wa))"
    by (rule debounced_reentrant_armed)
next
  assume keeps: "\<forall>s0 w0. timerId s0 \<noteq> None \<longrightarrow> timerId (fst (snd (g this args (s0, w0)))) \<noteq> None"
  from debounced_reentrant_armed [where args = args and this = this and t = t and s = s
      and w = w and c = c and g = g] obtain sa wa where
    armed: "lastArgs sa = Some args" "lastThis sa = this" "pending sa"
    and run: "debounced_reentrant c g t this args (s, w) =
         (if shouldInvoke c s t \<and> (if timerId s = None then leading c else maxWait c \<noteq> None)
          then invokeFunc_reentrant c g t (sa, wa) else (result s, sa, wa))"
    by blast
  show "pending (fst (snd (debounced_reentrant c g t this args (s, w))))"
  proof (cases "shouldInvoke c s t \<and> (if timerId s = None then leading c else maxWait c \<noteq> None)")
    case True
    with run have "debounced_reentrant c g t this args (s, w) = invokeFunc_reentrant c g t (sa, wa)"
      by simp
    moreover from armed have "timerId (sa\<lparr>lastArgs := None, lastThis := None, lastInvokeTime := t\<rparr>) \<noteq> None"
      by (simp add: pending_def)
    ultimately show ?thesis
      using keeps armed
      by (simp add: invokeFunc_reentrant_timerId pending_def
          del: debounced_reentrant.simps invokeFunc_reentrant.simps)
  next
    case False
    with run armed show ?thesis
      by (simp del: debounced_reentrant.simps)
  qed
next
  show "debounced_reentrant c (quiet (func c)) t this args (s, w) = debounced c t this args (s, w)"
    by (rule debounced_reentrant_quiet)
qed

theorem debounced_reentrant_arms_witness:
  "pending (fst (snd (debounced_reentrant leading32 (quiet (func leading32)) 100 None [1, 2]
       (initial, browser))))
   \<and> debounced_reentrant leading32 (quiet (func leading32)) 100 None [1, 2] (initial, browser)
       = debounced leading32 100 None [1, 2] (initial, browser)
   \<and> pending (fst (snd (debounced plain32 110 None [3]
        (snd (debounced plain32 100 None [1, 2] (initial, browser))))))"
  using debounced_reentrant_arms [where c = leading32 and g = "quiet (func leading32)" and t = 100
      and this = None and args = "[1, 2]" and s = initial and w = browser, THEN conjunct2]
    debounced_reentrant_arms [where c = plain32 and g = "quiet (func plain32)" and t = 110
      and this = None and args = "[3]"
      and s = "fst (snd (debounced plain32 100 None [1, 2] (initial, browser)))"
      and w = "snd (snd (debounced plain32 100 None [1, 2] (initial, browser)))", THEN conjunct2]
  by (auto simp add: quiet_def simp del: debounced_reentrant.simps debounced.simps)

text \<open>
  C9 as stated fails for a callable that cancels its own wrapper: on the leading edge
  the call starts the timer, applies the callable, which clears it, and returns with
  nothing pending. And a second call within \<open>wait\<close> of the first, with the timer
  outstanding, neither arms nor re-arms: slot and host are as the first call left them.
\<close>

theorem debounced_reentrant_cancel_counterexample:
  "debounced_reentrant leading32 cancelling 100 None [1, 2] (initial, browser) =
     (Some 0,
      \<lparr>lastArgs = None, lastThis = None, result = Some 0, lastCallTime = None, timerId = None,
        lastInvokeTime = 0\<rparr>,
      browser\<lparr>nextTimeout := 2, applied := [(None, [1, 2])]\<rparr>)
   \<and> \<not> pending (fst (snd (debounced_reentrant leading32 cancelling 100 None [1, 2]
          (initial, browser))))
   \<and> \<not> shouldInvoke plain32 (fst (snd (debounced plain32 100 None [1, 2] (initial, browser)))) 110
   \<and> timerId (fst (snd (debounced plain32 100 None [1, 2] (initial, browser))))
       = Some (NumberHandle 1)
   \<and> burst = snd (debounced plain32 110 None [3]
       (snd (debounced plain32 100 None [1, 2] (initial, browser))))
   \<and> timerId (fst burst) = Some (NumberHandle 1)
   \<and> snd burst = snd (snd (debounced plain32 100 None [1, 2] (initial, browser)))"
  by (simp add: burst_eq)
    (simp add: cancelling_def leading32_def plain32_def initial_def browser_def pending_def
      shouldInvoke_def setTimeout_def timeoutHandle_def clearTimeout_def Let_def)

text \<open>
  C10. With \<open>leading\<close> set, a call on the leading edge applies the callable and clears
  the pending arguments, and no run of timer callbacks after it, without another call,
  applies the callable again: the trace grows by exactly that one application.
\<close>

theorem single_call_invokes_once:
  assumes "leading c" and "shouldInvoke c s t" and "timerId s = None"
  shows "case debounced c t this args (s, w) of (r, s1, w1) \<Rightarrow>
           r = Some (func c this args) \<and> applied w1 = applied w @ [(this, args)]
           \<and> lastArgs s1 = None
           \<and> applied (snd (expirations c es (s1, w1))) = applied w @ [(this, args)]
           \<and> result (fst (expirations c es (s1, w1))) = Some (func c this args)"
proof -
  obtain r s1 w1 where call: "debounced c t this args (s, w) = (r, s1, w1)"
    by (cases "debounced c t this args (s, w)")
  from assms call have first: "r = Some (func c this args)"
    "applied w1 = applied w @ [(this, args)]" "lastArgs s1 = None" "result s1 = r"
    by (auto simp: Let_def setTimeout_def func_apply_def split: prod.splits)
  from expirations_nothing_pending [OF first(3), where c = c and es = es and w = w1] first call
  show ?thesis by (simp del: debounced.simps)
qed

theorem single_call_invokes_once_witness:
  "leading leading32 \<and> trailing leading32 \<and> shouldInvoke leading32 initial 100
   \<and> timerId (initial :: (unit, int, int) state) = None
   \<and> expirations leading32
        [(TimeoutDue (NumberHandle 1), 120), (TimeoutDue (NumberHandle 2), 132)]
        (snd (debounced leading32 100 None [1, 2] (initial, browser))) =
       (\<lparr>lastArgs = None, lastThis = None, result = Some 3, lastCallTime = Some 100,
          timerId = None, lastInvokeTime = 100\<rparr>,
        browser\<lparr>nextTimeout := 3, applied := [(None, [1, 2])]\<rparr>)"
  using single_call_invokes_once [where c = leading32 and s = initial and t = 100
      and this = None and args = "[1, 2]" and w = browser
      and es = "[(TimeoutDue (NumberHandle 1), 120), (TimeoutDue (NumberHandle 2), 132)]"]
  by (simp add: leading32_def initial_def browser_def shouldInvoke_def remainingWait_def
      setTimeout_def timeoutHandle_def clearTimeout_def func_apply_def sum_args_def Let_def)

end
